theory Spec2Isabelle
  imports Main
begin

section \<open>Values, errors and text\<close>

text \<open>
  The program is \<^verbatim>\<open>0x02-redis_basic/exercise.py\<close>: a class \<^verbatim>\<open>Cache\<close> over a Redis
  client, two decorators defined in the class body, and a module-level function
  \<^verbatim>\<open>replay\<close>.

  A byte string is a list of 8-bit characters. A Python text (\<^verbatim>\<open>str\<close>) is represented by
  its UTF-8 encoding, so that \<^verbatim>\<open>s.encode()\<close> is the identity on the representation and
  \<^verbatim>\<open>b.decode("utf-8")\<close> is a validity check; formatting an f-string is concatenation.
  The values the program passes around are \<^verbatim>\<open>None\<close>, texts, byte strings and integers
  (Python integers are unbounded). Floating-point data is left out of the model.
\<close>

type_synonym bytes = string

datatype pyval = PNone | PStr string | PBytes bytes | PInt int

text \<open>
  Every exception the modelled code can raise. \<open>ResponseError\<close> is the Redis client's
  exception for a command refused by the server (wrong kind of value under the key, or a
  value that is not a 64-bit integer); \<open>DataError\<close> is the client's exception for a value
  it cannot encode. \<open>RecursionError\<close> is raised by the interpreter when the call stack
  exceeds its limit.
\<close>

datatype error =
  ResponseError | DataError | UnicodeDecodeError | ValueError | AttributeError
  | TypeError | RecursionError

subsection \<open>Decimal digits\<close>

definition is_digit :: "char \<Rightarrow> bool" where
  "is_digit c = (48 \<le> (of_char c :: nat) \<and> (of_char c :: nat) \<le> 57)"

definition digit_val :: "char \<Rightarrow> nat" where
  "digit_val c = of_char c - 48"

definition digit_char :: "nat \<Rightarrow> char" where
  "digit_char d = ''0123456789'' ! d"

function show_nat :: "nat \<Rightarrow> string" where
  "show_nat n =
     (if n < 10 then [digit_char n]
      else show_nat (n div 10) @ [digit_char (n mod 10)])"
  by pat_completeness auto
termination
  by (relation "measure id") auto

declare show_nat.simps [simp del]

text \<open>\<^verbatim>\<open>repr(i)\<close> of an integer: its decimal digits, with a minus sign when negative.\<close>

definition show_int :: "int \<Rightarrow> string" where
  "show_int i = (if i < 0 then CHR ''-'' # show_nat (nat (- i)) else show_nat (nat i))"

definition dec_val :: "string \<Rightarrow> nat" where
  "dec_val s = foldl (\<lambda>a c. 10 * a + digit_val c) 0 s"

subsection \<open>\<^verbatim>\<open>bytes.decode("utf-8")\<close>\<close>

text \<open>
  The strict UTF-8 decoder accepts exactly the well-formed byte sequences: a lead byte
  fixes the number of continuation bytes and the range of the first of them (which
  excludes overlong forms, surrogates and code points above U+10FFFF).
  \<open>utf8_lead b\<close> is \<open>(k, lo, hi)\<close>: \<open>k\<close> continuation bytes follow, the first within
  \<open>lo..hi\<close>.
\<close>

definition utf8_lead :: "nat \<Rightarrow> (nat \<times> nat \<times> nat) option" where
  "utf8_lead b =
     (if b < 0x80 then Some (0, 0, 0)
      else if 0xC2 \<le> b \<and> b \<le> 0xDF then Some (1, 0x80, 0xBF)
      else if b = 0xE0 then Some (2, 0xA0, 0xBF)
      else if b = 0xED then Some (2, 0x80, 0x9F)
      else if 0xE1 \<le> b \<and> b \<le> 0xEF then Some (2, 0x80, 0xBF)
      else if b = 0xF0 then Some (3, 0x90, 0xBF)
      else if 0xF1 \<le> b \<and> b \<le> 0xF3 then Some (3, 0x80, 0xBF)
      else if b = 0xF4 then Some (3, 0x80, 0x8F)
      else None)"

definition utf8_cont :: "nat \<Rightarrow> bool" where
  "utf8_cont c = (0x80 \<le> c \<and> c \<le> 0xBF)"

fun utf8_ok :: "nat list \<Rightarrow> bool" where
  "utf8_ok [] = True"
| "utf8_ok (b # bs) =
     (case utf8_lead b of
        None \<Rightarrow> False
      | Some (k, lo, hi) \<Rightarrow>
          length (take k bs) = k \<and>
          (case take k bs of
             [] \<Rightarrow> True
           | c # cs \<Rightarrow> lo \<le> c \<and> c \<le> hi \<and> list_all utf8_cont cs) \<and>
          utf8_ok (drop k bs))"

definition valid_utf8 :: "bytes \<Rightarrow> bool" where
  "valid_utf8 b = utf8_ok (map of_char b)"

definition bytes_decode :: "bytes \<Rightarrow> error + string" where
  "bytes_decode b = (if valid_utf8 b then Inr b else Inl UnicodeDecodeError)"

subsection \<open>\<^verbatim>\<open>int(b)\<close> on a byte string\<close>

text \<open>
  Python's \<^verbatim>\<open>int\<close> on a byte string reads a base-10 literal: optional ASCII whitespace
  around, an optional sign directly before the digits, and digits that may be separated by
  single underscores. Anything else raises \<^verbatim>\<open>ValueError\<close>. (The interpreter's optional
  limit on the number of digits is not modelled.)
\<close>

definition is_space :: "char \<Rightarrow> bool" where
  "is_space c = ((9 \<le> (of_char c :: nat) \<and> (of_char c :: nat) \<le> 13) \<or> (of_char c :: nat) = 32)"

fun py_digits :: "nat \<Rightarrow> string \<Rightarrow> (nat \<times> string) option" where
  "py_digits acc [] = Some (acc, [])"
| "py_digits acc (c # cs) =
     (if is_digit c then py_digits (10 * acc + digit_val c) cs
      else if c = CHR ''_'' then
        (case cs of
           [] \<Rightarrow> None
         | d # ds \<Rightarrow> if is_digit d then py_digits (10 * acc + digit_val d) ds else None)
      else Some (acc, c # cs))"

definition py_number :: "string \<Rightarrow> (nat \<times> string) option" where
  "py_number s =
     (case s of
        [] \<Rightarrow> None
      | c # cs \<Rightarrow> if is_digit c then py_digits (digit_val c) cs else None)"

definition py_int_of_bytes :: "bytes \<Rightarrow> error + int" where
  "py_int_of_bytes b =
     (let s = dropWhile is_space b;
          neg = (case s of [] \<Rightarrow> False | c # _ \<Rightarrow> c = CHR ''-'');
          t = (case s of [] \<Rightarrow> [] | c # cs \<Rightarrow> if c = CHR ''-'' \<or> c = CHR ''+'' then cs else s)
      in case py_number t of
           None \<Rightarrow> Inl ValueError
         | Some (n, rest) \<Rightarrow>
             if dropWhile is_space rest = [] then Inr (if neg then - int n else int n)
             else Inl ValueError)"

section \<open>The Redis client\<close>

text \<open>
  The store is external to the program. Its model here follows the commands the program
  issues: a database maps a key to a string value or to a list value; a command applied
  to a key of the other kind fails with \<open>ResponseError\<close> and changes nothing. Every
  command takes the database and returns the database after it together with its reply.
  The connection itself is assumed to work. Keys are identified with their bytes.
\<close>

datatype rval = RString bytes | RList "bytes list"

type_synonym redis = "string \<rightharpoonup> rval"

text \<open>The client encodes a value before sending it: bytes as they are, text as UTF-8,
  an integer as its decimal \<^verbatim>\<open>repr\<close>; \<^verbatim>\<open>None\<close> is refused.\<close>

definition encode :: "pyval \<Rightarrow> error + bytes" where
  "encode v =
     (case v of
        PBytes b \<Rightarrow> Inr b
      | PStr s \<Rightarrow> Inr s
      | PInt i \<Rightarrow> Inr (show_int i)
      | PNone \<Rightarrow> Inl DataError)"

definition flushdb :: "redis \<Rightarrow> redis \<times> (error + bool)" where
  "flushdb r = (Map.empty, Inr True)"

definition redis_set :: "redis \<Rightarrow> string \<Rightarrow> pyval \<Rightarrow> redis \<times> (error + bool)" where
  "redis_set r k v =
     (case encode v of
        Inl e \<Rightarrow> (r, Inl e)
      | Inr b \<Rightarrow> (r(k \<mapsto> RString b), Inr True))"

definition redis_get :: "redis \<Rightarrow> string \<Rightarrow> redis \<times> (error + bytes option)" where
  "redis_get r k =
     (case r k of
        None \<Rightarrow> (r, Inr None)
      | Some (RString b) \<Rightarrow> (r, Inr (Some b))
      | Some (RList xs) \<Rightarrow> (r, Inl ResponseError))"

text \<open>The server reads a counter strictly: \<open>0\<close>, or an optional minus sign and digits
  without a leading zero, within the signed 64-bit range.\<close>

definition string2ll :: "bytes \<Rightarrow> int option" where
  "string2ll s =
     (if s = ''0'' then Some 0
      else
        let neg = (case s of [] \<Rightarrow> False | c # _ \<Rightarrow> c = CHR ''-'');
            t = (if neg then tl s else s)
        in case t of
             [] \<Rightarrow> None
           | d # ds \<Rightarrow>
               if is_digit d \<and> d \<noteq> CHR ''0'' \<and> list_all is_digit ds then
                 (if neg then (if dec_val t \<le> 2 ^ 63 then Some (- int (dec_val t)) else None)
                  else (if dec_val t \<le> 2 ^ 63 - 1 then Some (int (dec_val t)) else None))
               else None)"

definition incr :: "redis \<Rightarrow> string \<Rightarrow> redis \<times> (error + int)" where
  "incr r k =
     (case r k of
        None \<Rightarrow> (r(k \<mapsto> RString ''1''), Inr 1)
      | Some (RString b) \<Rightarrow>
          (case string2ll b of
             None \<Rightarrow> (r, Inl ResponseError)
           | Some n \<Rightarrow>
               if n = 2 ^ 63 - 1 then (r, Inl ResponseError)
               else (r(k \<mapsto> RString (show_int (n + 1))), Inr (n + 1)))
      | Some (RList xs) \<Rightarrow> (r, Inl ResponseError))"

definition rpush :: "redis \<Rightarrow> string \<Rightarrow> pyval \<Rightarrow> redis \<times> (error + int)" where
  "rpush r k v =
     (case encode v of
        Inl e \<Rightarrow> (r, Inl e)
      | Inr b \<Rightarrow>
          (case r k of
             None \<Rightarrow> (r(k \<mapsto> RList [b]), Inr 1)
           | Some (RList xs) \<Rightarrow> (r(k \<mapsto> RList (xs @ [b])), Inr (int (length xs) + 1))
           | Some (RString s) \<Rightarrow> (r, Inl ResponseError)))"

text \<open>\<^verbatim>\<open>lrange(key, start, stop)\<close>: both ends inclusive, negative indices count from the
  end, out-of-range indices are clamped.\<close>

definition lrange :: "redis \<Rightarrow> string \<Rightarrow> int \<Rightarrow> int \<Rightarrow> redis \<times> (error + bytes list)" where
  "lrange r k start stop =
     (case r k of
        None \<Rightarrow> (r, Inr [])
      | Some (RString s) \<Rightarrow> (r, Inl ResponseError)
      | Some (RList xs) \<Rightarrow>
          (let n = int (length xs);
               s1 = (if start < 0 then n + start else start);
               e1 = (if stop < 0 then n + stop else stop);
               s2 = (if s1 < 0 then 0 else s1)
           in if s2 > e1 \<or> s2 \<ge> n then (r, Inr [])
              else (r, Inr (take (nat ((if e1 \<ge> n then n - 1 else e1) - s2 + 1)) (drop (nat s2) xs)))))"

text \<open>Observations of a database: the entries of the list under a key (none when the key
  is absent), and their number.\<close>

definition log_entries :: "redis \<Rightarrow> string \<Rightarrow> bytes list" where
  "log_entries r k = (case r k of Some (RList xs) \<Rightarrow> xs | _ \<Rightarrow> [])"

definition llen :: "redis \<Rightarrow> string \<Rightarrow> nat" where
  "llen r k = length (log_entries r k)"

section \<open>The class \<^verbatim>\<open>Cache\<close>\<close>

text \<open>\<^verbatim>\<open>__init__\<close> connects and flushes the database.\<close>

definition Cache_init :: "redis \<Rightarrow> redis" where
  "Cache_init r = fst (flushdb r)"

text \<open>
  The first definition of \<^verbatim>\<open>store\<close> in the class body (lines 19--31). The fresh key
  \<^verbatim>\<open>str(uuid.uuid4())\<close> is random; it is the parameter \<open>u\<close>. The two later definitions
  of \<^verbatim>\<open>store\<close> rebind the name, so no call reaches this one.
\<close>

definition store_base :: "redis \<Rightarrow> string \<Rightarrow> pyval \<Rightarrow> redis \<times> (error + pyval)" where
  "store_base r u data =
     (case redis_set r u data of
        (r1, Inl e) \<Rightarrow> (r1, Inl e)
      | (r1, Inr ok) \<Rightarrow> (r1, Inr (PStr u)))"

text \<open>
  \<^verbatim>\<open>get(key, fn)\<close>. The converter \<open>fn\<close> is any callable: it may raise, and it may have
  effects of its own, which are kept in a state \<open>'u\<close> threaded through the call, so that
  whether the converter ran is observable.
\<close>

type_synonym 'u converter = "bytes \<Rightarrow> 'u \<Rightarrow> 'u \<times> (error + pyval)"

definition get :: "redis \<Rightarrow> string \<Rightarrow> 'u converter option \<Rightarrow> 'u \<Rightarrow> redis \<times> 'u \<times> (error + pyval)" where
  "get r key fn u =
     (case redis_get r key of
        (r1, Inl e) \<Rightarrow> (r1, u, Inl e)
      | (r1, Inr None) \<Rightarrow> (r1, u, Inr PNone)
      | (r1, Inr (Some val)) \<Rightarrow>
          (case fn of
             Some f \<Rightarrow> (case f val u of (u1, res) \<Rightarrow> (r1, u1, res))
           | None \<Rightarrow> (r1, u, Inr (PBytes val))))"

text \<open>The two converters of the source, \<^verbatim>\<open>lambda d: d.decode("utf-8")\<close> and \<^verbatim>\<open>int\<close>;
  neither has an effect.\<close>

definition conv_str :: "bytes \<Rightarrow> error + pyval" where
  "conv_str d = (case bytes_decode d of Inl e \<Rightarrow> Inl e | Inr s \<Rightarrow> Inr (PStr s))"

definition conv_int :: "bytes \<Rightarrow> error + pyval" where
  "conv_int d = (case py_int_of_bytes d of Inl e \<Rightarrow> Inl e | Inr i \<Rightarrow> Inr (PInt i))"

definition pure_conv :: "(bytes \<Rightarrow> error + pyval) \<Rightarrow> 'u converter" where
  "pure_conv f = (\<lambda>d u. (u, f d))"

definition get_str :: "redis \<Rightarrow> string \<Rightarrow> 'u \<Rightarrow> redis \<times> 'u \<times> (error + pyval)" where
  "get_str r key u = get r key (Some (pure_conv conv_str)) u"

definition get_int :: "redis \<Rightarrow> string \<Rightarrow> 'u \<Rightarrow> redis \<times> 'u \<times> (error + pyval)" where
  "get_int r key u = get r key (Some (pure_conv conv_int)) u"

section \<open>Function objects and the two decorators\<close>

text \<open>
  A Python function object has a qualified name (\<^verbatim>\<open>__qualname__\<close>), may carry further
  attributes, of which only \<^verbatim>\<open>_redis\<close> is ever looked up, and can be called. A call
  takes the database and the positional arguments after \<^verbatim>\<open>self\<close>; it returns the
  database after it with the value returned or the exception raised, or it does not return
  at all (\<open>None\<close>). Keyword arguments are passed through by the wrappers and never
  recorded; they are left out.

  A function created by \<^verbatim>\<open>def\<close> carries no \<^verbatim>\<open>_redis\<close> attribute, and the source
  assigns \<^verbatim>\<open>_redis\<close> on the instance only (line 16), never on a function.
\<close>

record pyobj =
  qualname :: string
  has_redis :: bool

record pymethod = pyobj +
  call :: "redis \<Rightarrow> pyval list \<Rightarrow> (redis \<times> (error + pyval)) option"

text \<open>
  \<^verbatim>\<open>count_calls\<close> (lines 59--73). Neither decorator copies the name of the function it
  wraps, so a wrapper's own qualified name is that of the nested \<^verbatim>\<open>def wrapper\<close>.
\<close>

definition count_calls :: "pymethod \<Rightarrow> pymethod" where
  "count_calls m =
     \<lparr>qualname = ''Cache.count_calls.<locals>.wrapper'', has_redis = False,
      call = (\<lambda>r args.
        case incr r (qualname m) of
          (r1, Inl e) \<Rightarrow> Some (r1, Inl e)
        | (r1, Inr n) \<Rightarrow> call m r1 args)\<rparr>"

text \<open>
  \<^verbatim>\<open>call_history\<close> (lines 80--97). \<^verbatim>\<open>str(args)\<close> renders the argument tuple through
  \<^verbatim>\<open>repr\<close>, whose rules for text depend on the Unicode character database; the rendering
  is the parameter \<open>sa\<close>, and \<^verbatim>\<open>str(args).encode()\<close> is the byte string \<open>sa args\<close>.
\<close>

definition call_history :: "(pyval list \<Rightarrow> string) \<Rightarrow> pymethod \<Rightarrow> pymethod" where
  "call_history sa m =
     \<lparr>qualname = ''Cache.call_history.<locals>.wrapper'', has_redis = False,
      call = (\<lambda>r args.
        case rpush r (qualname m @ '':inputs'') (PBytes (sa args)) of
          (r1, Inl e) \<Rightarrow> Some (r1, Inl e)
        | (r1, Inr n) \<Rightarrow>
            Option.bind (call m r1 args) (\<lambda>(r2, res).
              case res of
                Inl e \<Rightarrow> Some (r2, Inl e)
              | Inr output \<Rightarrow>
                  (case rpush r2 (qualname m @ '':outputs'') output of
                     (r3, Inl e) \<Rightarrow> Some (r3, Inl e)
                   | (r3, Inr n') \<Rightarrow> Some (r3, Inr output))))\<rparr>"

section \<open>The rebound \<^verbatim>\<open>store\<close>\<close>

text \<open>
  The class body defines \<^verbatim>\<open>store\<close> three times. After the class statement the
  attribute \<^verbatim>\<open>Cache.store\<close> is the last one: the \<^verbatim>\<open>call_history\<close> wrapper around the
  function of lines 100--102, whose body is \<^verbatim>\<open>return self.store(data)\<close>. That attribute
  lookup happens at call time and finds the wrapper again. So \<open>store\<close> below is the
  wrapper's body (that of \<open>call_history\<close>) with the wrapped function's call replaced by
  the call of \<open>store\<close> itself; \<open>None\<close> is a call that does not return.
\<close>

partial_function (option) store ::
  "(pyval list \<Rightarrow> string) \<Rightarrow> redis \<Rightarrow> pyval \<Rightarrow> (redis \<times> (error + pyval)) option" where
  "store sa r data =
     (case rpush r ''Cache.store:inputs'' (PBytes (sa [data])) of
        (r1, Inl e) \<Rightarrow> Some (r1, Inl e)
      | (r1, Inr n) \<Rightarrow>
          Option.bind (store sa r1 data) (\<lambda>(r2, res).
            case res of
              Inl e \<Rightarrow> Some (r2, Inl e)
            | Inr output \<Rightarrow>
                (case rpush r2 ''Cache.store:outputs'' output of
                   (r3, Inl e) \<Rightarrow> Some (r3, Inl e)
                 | (r3, Inr n') \<Rightarrow> Some (r3, Inr output))))"

text \<open>
  The function objects of lines 76--78 and 100--102: both are named \<^verbatim>\<open>Cache.store\<close>,
  take exactly one argument after \<^verbatim>\<open>self\<close> (anything else is a \<^verbatim>\<open>TypeError\<close>), and
  call \<^verbatim>\<open>self.store(data)\<close>.
\<close>

definition store_self_call :: "(pyval list \<Rightarrow> string) \<Rightarrow> pymethod" where
  "store_self_call sa =
     \<lparr>qualname = ''Cache.store'', has_redis = False,
      call = (\<lambda>r args.
        case args of
          [data] \<Rightarrow> store sa r data
        | _ \<Rightarrow> Some (r, Inl TypeError))\<rparr>"

text \<open>The binding of lines 75--78 (replaced by the next one) and the final binding of
  lines 99--102.\<close>

definition store_counted :: "(pyval list \<Rightarrow> string) \<Rightarrow> pymethod" where
  "store_counted sa = count_calls (store_self_call sa)"

definition store_final :: "(pyval list \<Rightarrow> string) \<Rightarrow> pymethod" where
  "store_final sa = call_history sa (store_self_call sa)"

text \<open>
  The interpreter bounds the call stack and raises \<^verbatim>\<open>RecursionError\<close> when the bound is
  reached. \<open>store_depth sa n\<close> is \<open>store sa\<close> under such a bound: \<open>n\<close> nested
  activations of the wrapper run before the error is raised. It returns the database as
  the unwinding leaves it.
\<close>

fun store_depth ::
  "(pyval list \<Rightarrow> string) \<Rightarrow> nat \<Rightarrow> redis \<Rightarrow> pyval \<Rightarrow> redis \<times> (error + pyval)" where
  "store_depth sa 0 r data = (r, Inl RecursionError)"
| "store_depth sa (Suc n) r data =
     (case rpush r ''Cache.store:inputs'' (PBytes (sa [data])) of
        (r1, Inl e) \<Rightarrow> (r1, Inl e)
      | (r1, Inr k) \<Rightarrow>
          (case store_depth sa n r1 data of
             (r2, Inl e) \<Rightarrow> (r2, Inl e)
           | (r2, Inr output) \<Rightarrow>
               (case rpush r2 ''Cache.store:outputs'' output of
                  (r3, Inl e) \<Rightarrow> (r3, Inl e)
                | (r3, Inr k') \<Rightarrow> (r3, Inr output))))"

text \<open>A key that holds no string value: \<^verbatim>\<open>rpush\<close> to it is accepted.\<close>

definition list_or_absent :: "redis \<Rightarrow> string \<Rightarrow> bool" where
  "list_or_absent r k = (case r k of Some (RString s) \<Rightarrow> False | _ \<Rightarrow> True)"

text \<open>The value of a counter as the server reads it; an absent key counts as zero.\<close>

definition counter_value :: "redis \<Rightarrow> string \<Rightarrow> int option" where
  "counter_value r k =
     (case r k of
        None \<Rightarrow> Some 0
      | Some (RString b) \<Rightarrow> string2ll b
      | Some (RList xs) \<Rightarrow> None)"

section \<open>\<^verbatim>\<open>replay\<close>\<close>

text \<open>
  \<^verbatim>\<open>replay(method)\<close> (lines 104--118) returns the database, the lines printed and
  whether it ended normally. The loop over \<^verbatim>\<open>zip(inputs, outputs)\<close> decodes the input,
  then the output, then prints; a decoding error ends it with the lines printed so far.
  \<^verbatim>\<open>None.decode\<close> is an \<^verbatim>\<open>AttributeError\<close>, as is the lookup of a missing \<^verbatim>\<open>_redis\<close>.
\<close>

fun replay_loop :: "string \<Rightarrow> (bytes \<times> bytes) list \<Rightarrow> string list \<times> (error + unit)" where
  "replay_loop key [] = ([], Inr ())"
| "replay_loop key ((inp, outp) # ps) =
     (case bytes_decode inp of
        Inl e \<Rightarrow> ([], Inl e)
      | Inr si \<Rightarrow>
          (case bytes_decode outp of
             Inl e \<Rightarrow> ([], Inl e)
           | Inr so \<Rightarrow>
               (case replay_loop key ps of
                  (ls, res) \<Rightarrow> ((key @ ''('' @ ''*'' @ si @ '') -> '' @ so) # ls, res))))"

definition replay :: "redis \<Rightarrow> 'a pyobj_scheme \<Rightarrow> redis \<times> string list \<times> (error + unit)" where
  "replay r m =
     (let key = qualname m in
      if \<not> has_redis m then (r, [], Inl AttributeError)
      else
        case redis_get r key of
          (r1, Inl e) \<Rightarrow> (r1, [], Inl e)
        | (r1, Inr None) \<Rightarrow> (r1, [], Inl AttributeError)
        | (r1, Inr (Some c)) \<Rightarrow>
            (case bytes_decode c of
               Inl e \<Rightarrow> (r1, [], Inl e)
             | Inr count \<Rightarrow>
                 (case lrange r1 (key @ '':inputs'') 0 (- 1) of
                    (r2, Inl e) \<Rightarrow> (r2, [], Inl e)
                  | (r2, Inr inputs) \<Rightarrow>
                      (case lrange r2 (key @ '':outputs'') 0 (- 1) of
                         (r3, Inl e) \<Rightarrow> (r3, [], Inl e)
                       | (r3, Inr outputs) \<Rightarrow>
                           (case replay_loop key (zip inputs outputs) of
                              (ls, res) \<Rightarrow>
                                (r3, (key @ '' was called '' @ count @ '' times:'') # ls, res))))))"

text \<open>
  The bound methods of a \<^verbatim>\<open>Cache\<close> instance, as \<^verbatim>\<open>replay\<close> sees them: attribute lookup
  on a bound method goes to its function. \<^verbatim>\<open>store\<close> is the \<^verbatim>\<open>call_history\<close> wrapper.
\<close>

datatype cache_member =
  M_init | M_store | M_get | M_get_str | M_get_int | M_count_calls | M_call_history

definition bound_method :: "(pyval list \<Rightarrow> string) \<Rightarrow> cache_member \<Rightarrow> pyobj" where
  "bound_method sa a =
     (case a of
        M_init \<Rightarrow> \<lparr>qualname = ''Cache.__init__'', has_redis = False\<rparr>
      | M_store \<Rightarrow> \<lparr>qualname = qualname (store_final sa), has_redis = has_redis (store_final sa)\<rparr>
      | M_get \<Rightarrow> \<lparr>qualname = ''Cache.get'', has_redis = False\<rparr>
      | M_get_str \<Rightarrow> \<lparr>qualname = ''Cache.get_str'', has_redis = False\<rparr>
      | M_get_int \<Rightarrow> \<lparr>qualname = ''Cache.get_int'', has_redis = False\<rparr>
      | M_count_calls \<Rightarrow> \<lparr>qualname = ''Cache.count_calls'', has_redis = False\<rparr>
      | M_call_history \<Rightarrow> \<lparr>qualname = ''Cache.call_history'', has_redis = False\<rparr>)"

section \<open>Retrieval\<close>

text \<open>
  C3. For a key that is absent from the store, \<open>get\<close> returns \<^verbatim>\<open>None\<close> whatever
  converter is supplied (or none), and the converter does not run: its state is the one
  before the call, also for a converter that changes its state or raises whenever it runs.
\<close>

theorem get_absent_key:
  "r key = None \<Longrightarrow> get r key fn u = (r, u, Inr PNone)"
  by (simp add: get_def redis_get_def)

theorem get_absent_key_witness:
  "(Map.empty :: redis) ''k'' = None \<and>
   get (Map.empty :: redis) ''k'' (Some (\<lambda>d u. (Suc u, Inl ValueError))) (0 :: nat)
     = (Map.empty, 0, Inr PNone) \<and>
   get (Map.empty :: redis) ''k'' None (0 :: nat) = (Map.empty, 0, Inr PNone)"
  using get_absent_key [of Map.empty "''k''" "Some (\<lambda>d u. (Suc u, Inl ValueError))" "0 :: nat"]
    get_absent_key [of Map.empty "''k''" None "0 :: nat"]
  by simp

text \<open>
  C5. When \<open>get\<close> without a converter returns the raw bytes \<open>b\<close> of a key, \<open>get_str\<close>
  returns the UTF-8 decoding of \<open>b\<close> and \<open>get_int\<close> the base-10 integer read from \<open>b\<close>;
  when \<open>b\<close> is not valid UTF-8 (not a numeric literal) the converter's error is the
  result, uncaught. On an absent key both return \<^verbatim>\<open>None\<close>.
\<close>

theorem get_str_get_int_convert:
  "(get r key None u = (r1, u1, Inr (PBytes b)) \<longrightarrow>
      get_str r key u =
        (r1, u1, case bytes_decode b of Inl e \<Rightarrow> Inl e | Inr s \<Rightarrow> Inr (PStr s)) \<and>
      get_int r key u =
        (r1, u1, case py_int_of_bytes b of Inl e \<Rightarrow> Inl e | Inr i \<Rightarrow> Inr (PInt i))) \<and>
   (r key' = None \<longrightarrow>
      get_str r key' u = (r, u, Inr PNone) \<and> get_int r key' u = (r, u, Inr PNone))"
  by (auto simp: get_def get_str_def get_int_def redis_get_def pure_conv_def conv_str_def
      conv_int_def split: option.splits rval.splits)

theorem get_str_get_int_convert_witness:
  "get [''k'' \<mapsto> RString ''42''] ''k'' None () = ([''k'' \<mapsto> RString ''42''], (), Inr (PBytes ''42'')) \<and>
   get_str [''k'' \<mapsto> RString ''42''] ''k'' () = ([''k'' \<mapsto> RString ''42''], (), Inr (PStr ''42'')) \<and>
   get_int [''k'' \<mapsto> RString ''42''] ''k'' () = ([''k'' \<mapsto> RString ''42''], (), Inr (PInt 42)) \<and>
   get_str [''k'' \<mapsto> RString ''42''] ''x'' () = ([''k'' \<mapsto> RString ''42''], (), Inr PNone) \<and>
   get_int [''k'' \<mapsto> RString ''42''] ''x'' () = ([''k'' \<mapsto> RString ''42''], (), Inr PNone)"
proof -
  have g: "get [''k'' \<mapsto> RString ''42''] ''k'' None () = ([''k'' \<mapsto> RString ''42''], (), Inr (PBytes ''42''))"
    by (simp add: get_def redis_get_def)
  have d: "bytes_decode ''42'' = Inr ''42''"
    by (simp add: bytes_decode_def valid_utf8_def utf8_lead_def)
  have i: "py_int_of_bytes ''42'' = Inr 42"
    by (simp add: py_int_of_bytes_def py_number_def is_digit_def digit_val_def is_space_def)
  show ?thesis
    using get_str_get_int_convert [of "[''k'' \<mapsto> RString ''42'']" "''k''" "()"
        "[''k'' \<mapsto> RString ''42'']" "()" "''42''" "''x''"] g d i
    by simp
qed

section \<open>The rebound \<^verbatim>\<open>store\<close> does not return\<close>


lemma rpush_bytes_ok:
  "list_or_absent r k \<Longrightarrow>
   rpush r k (PBytes b) = (r(k \<mapsto> RList (log_entries r k @ [b])), Inr (int (llen r k) + 1))"
  by (auto simp: rpush_def encode_def list_or_absent_def log_entries_def llen_def
      split: option.splits rval.splits)

lemma list_or_absent_upd: "list_or_absent (r(k \<mapsto> RList xs)) k"
  by (simp add: list_or_absent_def)

lemma store_returns_only_on_string:
  "store sa r data = Some y \<Longrightarrow> \<not> list_or_absent r ''Cache.store:inputs''"
proof (rule store.raw_induct [where P = "\<lambda>sa r data y. \<not> list_or_absent r ''Cache.store:inputs''"])
  fix store' :: "(pyval list \<Rightarrow> string) \<Rightarrow> redis \<Rightarrow> pyval \<Rightarrow> (redis \<times> (error + pyval)) option"
    and sa :: "pyval list \<Rightarrow> string" and r :: redis and data :: pyval
    and y :: "redis \<times> (error + pyval)"
  assume IH: "\<And>sa r data y. store' sa r data = Some y \<Longrightarrow> \<not> list_or_absent r ''Cache.store:inputs''"
  assume step: "(case rpush r ''Cache.store:inputs'' (PBytes (sa [data])) of
        (r1, Inl e) \<Rightarrow> Some (r1, Inl e)
      | (r1, Inr n) \<Rightarrow>
          Option.bind (store' sa r1 data) (\<lambda>(r2, res).
            case res of
              Inl e \<Rightarrow> Some (r2, Inl e)
            | Inr output \<Rightarrow>
                (case rpush r2 ''Cache.store:outputs'' output of
                   (r3, Inl e) \<Rightarrow> Some (r3, Inl e)
                 | (r3, Inr n') \<Rightarrow> Some (r3, Inr output)))) = Some y"
  show "\<not> list_or_absent r ''Cache.store:inputs''"
  proof
    assume ok: "list_or_absent r ''Cache.store:inputs''"
    let ?r1 = "r(''Cache.store:inputs'' \<mapsto> RList (log_entries r ''Cache.store:inputs'' @ [sa [data]]))"
    from step ok obtain z where "store' sa ?r1 data = Some z"
      by (auto simp: rpush_bytes_ok Option.bind_eq_Some_conv)
    from IH [OF this] show False by (simp add: list_or_absent_upd)
  qed
qed

lemma store_diverges:
  "list_or_absent r ''Cache.store:inputs'' \<Longrightarrow> store sa r data = None"
  using store_returns_only_on_string [of sa r data] by (cases "store sa r data") auto

text \<open>Under a bound on the stack the call ends in \<^verbatim>\<open>RecursionError\<close>, having appended
  one input entry per activation and nothing else.\<close>

lemma log_entries_upd: "log_entries (r(k \<mapsto> RList xs)) k = xs"
  by (simp add: log_entries_def)

lemma store_depth_state:
  "list_or_absent r ''Cache.store:inputs'' \<Longrightarrow>
   store_depth sa n r data =
     (if n = 0 then r
      else r(''Cache.store:inputs'' \<mapsto>
             RList (log_entries r ''Cache.store:inputs'' @ replicate n (sa [data]))),
      Inl RecursionError)"
proof (induction n arbitrary: r)
  case 0
  show ?case by simp
next
  case (Suc n)
  let ?I = "''Cache.store:inputs''"
  let ?r1 = "r(?I \<mapsto> RList (log_entries r ?I @ [sa [data]]))"
  have ok1: "list_or_absent ?r1 ?I" by (rule list_or_absent_upd)
  have "store_depth sa (Suc n) r data =
      (case store_depth sa n ?r1 data of
         (r2, Inl e) \<Rightarrow> (r2, Inl e)
       | (r2, Inr output) \<Rightarrow>
           (case rpush r2 ''Cache.store:outputs'' output of
              (r3, Inl e) \<Rightarrow> (r3, Inl e)
            | (r3, Inr k') \<Rightarrow> (r3, Inr output)))"
    using Suc.prems by (simp add: rpush_bytes_ok)
  also have "\<dots> = (if n = 0 then ?r1
      else ?r1(?I \<mapsto> RList (log_entries ?r1 ?I @ replicate n (sa [data]))), Inl RecursionError)"
    by (simp add: Suc.IH [OF ok1])
  also have "\<dots> = (r(?I \<mapsto> RList (log_entries r ?I @ replicate (Suc n) (sa [data]))), Inl RecursionError)"
    by (simp add: log_entries_upd)
  finally show ?case by (simp only: nat.distinct if_False)
qed

lemma Cache_init_empty: "Cache_init r = Map.empty"
  by (simp add: Cache_init_def flushdb_def)



text \<open>
  C2. After \<^verbatim>\<open>__init__\<close> and one call of \<^verbatim>\<open>store\<close>, cut by the interpreter at any depth
  \<open>n\<close>, the inputs log of \<^verbatim>\<open>Cache.store\<close> has \<open>n\<close> entries, the outputs log has none
  and the counter key is absent: the three are not equal.
\<close>

theorem store_breaks_log_invariant:
  "snd (store_depth sa n (Cache_init r0) data) = Inl RecursionError \<and>
   llen (fst (store_depth sa n (Cache_init r0) data)) ''Cache.store:inputs'' = n \<and>
   llen (fst (store_depth sa n (Cache_init r0) data)) ''Cache.store:outputs'' = 0 \<and>
   fst (store_depth sa n (Cache_init r0) data) ''Cache.store'' = None"
proof -
  have ok: "list_or_absent Map.empty ''Cache.store:inputs''"
    by (simp add: list_or_absent_def)
  show ?thesis
    by (simp add: Cache_init_empty store_depth_state [OF ok] llen_def log_entries_def)
qed

text \<open>The definition of lines 19--31 does store the value and return its key.\<close>

lemma store_base_roundtrip:
  "encode data = Inr b \<Longrightarrow>
   store_base r u data = (r(u \<mapsto> RString b), Inr (PStr u)) \<and>
   get (r(u \<mapsto> RString b)) u None w = (r(u \<mapsto> RString b), w, Inr (PBytes b))"
  by (simp add: store_base_def redis_set_def get_def redis_get_def)

text \<open>
  C4. \<^verbatim>\<open>store("foo")\<close> on a fresh cache does not return a key, so there is no key to
  read back; the shadowed definition of lines 19--31 at the same input stores the bytes
  and \<open>get\<close> returns them.
\<close>

theorem store_roundtrip_unreachable:
  "store sa (Cache_init r0) (PStr ''foo'') = None \<and>
   store_base (Cache_init r0) u (PStr ''foo'') = ((Cache_init r0)(u \<mapsto> RString ''foo''), Inr (PStr u)) \<and>
   get ((Cache_init r0)(u \<mapsto> RString ''foo'')) u None w
     = ((Cache_init r0)(u \<mapsto> RString ''foo''), w, Inr (PBytes ''foo''))"
proof -
  have ok: "list_or_absent (Cache_init r0) ''Cache.store:inputs''"
    by (simp add: list_or_absent_def Cache_init_empty)
  have e: "encode (PStr ''foo'') = Inr ''foo''" by (simp add: encode_def)
  show ?thesis
    using store_diverges [OF ok] store_base_roundtrip [OF e] by simp
qed

section \<open>The decorators\<close>

text \<open>The decimal rendering of a counter reads back as the same integer.\<close>

lemma digit_cases:
  assumes "d < (10::nat)"
  obtains "d = 0" | "d = 1" | "d = 2" | "d = 3" | "d = 4" | "d = 5" | "d = 6" | "d = 7"
    | "d = 8" | "d = 9"
  using assms by atomize_elim arith

lemma digit_char_props:
  assumes "d < (10::nat)"
  shows "is_digit (digit_char d)" and "digit_val (digit_char d) = d"
    and "(digit_char d = CHR ''0'') = (d = 0)"
  using assms by (cases d rule: digit_cases; simp add: is_digit_def digit_val_def digit_char_def)+

lemma dec_val_snoc: "dec_val (xs @ [c]) = 10 * dec_val xs + digit_val c"
  by (simp add: dec_val_def)

lemma dec_val_show_nat: "dec_val (show_nat n) = n"
proof (induction n rule: show_nat.induct)
  case (1 n)
  show ?case
  proof (cases "n < 10")
    case True
    then show ?thesis
      by (subst show_nat.simps) (simp add: dec_val_def digit_char_props)
  next
    case False
    with 1 have "dec_val (show_nat (n div 10)) = n div 10" by simp
    with False show ?thesis
      by (subst show_nat.simps) (simp add: dec_val_snoc digit_char_props)
  qed
qed

lemma show_nat_shape:
  "0 < n \<Longrightarrow> \<exists>d ds. show_nat n = d # ds \<and> is_digit d \<and> d \<noteq> CHR ''0'' \<and> list_all is_digit ds"
proof (induction n rule: show_nat.induct)
  case (1 n)
  show ?case
  proof (cases "n < 10")
    case True
    with 1(2) show ?thesis
      by (subst show_nat.simps) (simp add: digit_char_props)
  next
    case False
    then have "0 < n div 10" by (simp add: div_greater_zero_iff)
    with 1(1) False obtain d ds where
      "show_nat (n div 10) = d # ds" "is_digit d" "d \<noteq> CHR ''0''" "list_all is_digit ds"
      by blast
    with False show ?thesis
      by (subst show_nat.simps) (simp add: digit_char_props)
  qed
qed

lemma string2ll_show_int:
  assumes "- (2 ^ 63) \<le> i" and "i \<le> 2 ^ 63 - 1"
  shows "string2ll (show_int i) = Some i"
proof -
  consider "i = 0" | "0 < i" | "i < 0" by linarith
  then show ?thesis
  proof cases
    case 1
    then show ?thesis by (simp add: show_int_def show_nat.simps string2ll_def digit_char_def)
  next
    case 2
    then obtain d ds where s: "show_nat (nat i) = d # ds" "is_digit d" "d \<noteq> CHR ''0''"
      "list_all is_digit ds"
      using show_nat_shape [of "nat i"] by auto
    have m: "d \<noteq> CHR ''-''" using s(2) by (auto simp: is_digit_def)
    have v: "dec_val (d # ds) = nat i" using dec_val_show_nat [of "nat i"] s(1) by simp
    have le: "nat i \<le> 2 ^ 63 - 1" using assms(2) 2 by (simp add: nat_le_iff)
    show ?thesis using 2 s m v le by (simp add: show_int_def string2ll_def)
  next
    case 3
    then obtain d ds where s: "show_nat (nat (- i)) = d # ds" "is_digit d" "d \<noteq> CHR ''0''"
      "list_all is_digit ds"
      using show_nat_shape [of "nat (- i)"] by auto
    have v: "dec_val (d # ds) = nat (- i)" using dec_val_show_nat [of "nat (- i)"] s(1) by simp
    have le: "nat (- i) \<le> 2 ^ 63" using assms(1) 3 by (simp add: nat_le_iff)
    show ?thesis using 3 s v le by (simp add: show_int_def string2ll_def)
  qed
qed

lemma string2ll_range: "string2ll b = Some n \<Longrightarrow> - (2 ^ 63) \<le> n \<and> n \<le> 2 ^ 63 - 1"
  by (auto simp: string2ll_def Let_def split: if_splits list.splits)

lemma show_int_one: "show_int 1 = ''1''"
  by (simp add: show_int_def show_nat.simps digit_char_def)

text \<open>
  C7. When the counter of the wrapped operation's qualified name reads \<open>c\<close> (an absent
  key reads 0) and can be incremented, a call of the \<open>count_calls\<close> wrapper is the call
  of the wrapped operation on the database whose counter reads \<open>c + 1\<close>, all other keys
  unchanged: the increment precedes the operation, nothing is written after it, and the
  outcome of the operation (its result, or its error, with the database it leaves) is
  the outcome of the wrapper.
\<close>

theorem count_calls_increments:
  assumes "counter_value r (qualname m) = Some c" and "c < 2 ^ 63 - 1"
  shows "call (count_calls m) r args
           = call m (r(qualname m \<mapsto> RString (show_int (c + 1)))) args \<and>
         counter_value (r(qualname m \<mapsto> RString (show_int (c + 1)))) (qualname m)
           = Some (c + 1)"
proof -
  have lo: "- (2 ^ 63) \<le> c"
    using assms(1) string2ll_range [of _ c]
    by (auto simp: counter_value_def split: option.splits rval.splits)
  have inc: "incr r (qualname m)
      = (r(qualname m \<mapsto> RString (show_int (c + 1))), Inr (c + 1))"
    using assms show_int_one
    by (auto simp: incr_def counter_value_def split: option.splits rval.splits)
  have "string2ll (show_int (c + 1)) = Some (c + 1)"
    using lo assms(2) by (intro string2ll_show_int) auto
  then show ?thesis
    by (simp add: count_calls_def inc counter_value_def)
qed

theorem count_calls_increments_witness:
  "counter_value Map.empty (qualname (store_self_call (\<lambda>args. ''()''))) = Some 0 \<and>
   call (store_counted (\<lambda>args. ''()'')) Map.empty []
     = Some ([''Cache.store'' \<mapsto> RString ''1''], Inl TypeError) \<and>
   counter_value [''Cache.store'' \<mapsto> RString ''1''] ''Cache.store'' = Some 1"
proof -
  have h: "counter_value Map.empty (qualname (store_self_call (\<lambda>args. ''()''))) = Some 0"
    by (simp add: counter_value_def)
  show ?thesis
    using h count_calls_increments [OF h, of "[]"] show_int_one
    by (simp add: store_self_call_def store_counted_def)
qed




section \<open>\<^verbatim>\<open>replay\<close> prints the history\<close>













text \<open>
  C9. When the counter key of the argument's qualified name is absent, \<open>replay\<close> raises
  an error (\<^verbatim>\<open>AttributeError\<close>: \<^verbatim>\<open>None\<close> has no \<^verbatim>\<open>decode\<close>), prints nothing and
  writes nothing; no count of zero is printed.
\<close>

theorem replay_missing_counter:
  "r (qualname m) = None \<Longrightarrow> replay r m = (r, [], Inl AttributeError)"
  by (simp add: replay_def Let_def redis_get_def)

theorem replay_missing_counter_witness:
  "(Map.empty :: redis) (qualname \<lparr>qualname = ''Cache.store'', has_redis = True\<rparr>) = None \<and>
   replay (Map.empty :: redis) \<lparr>qualname = ''Cache.store'', has_redis = True\<rparr>
     = (Map.empty, [], Inl AttributeError)"
  using replay_missing_counter [of "Map.empty :: redis" "\<lparr>qualname = ''Cache.store'', has_redis = True\<rparr>"]
  by simp

text \<open>
  C10. For every bound method of a \<^verbatim>\<open>Cache\<close> instance, \<open>replay\<close> raises
  \<^verbatim>\<open>AttributeError\<close> whatever the database holds, having printed nothing: the lookup of
  \<^verbatim>\<open>_redis\<close> on the method fails before any read.
\<close>

theorem replay_bound_method:
  "replay r (bound_method sa a) = (r, [], Inl AttributeError)"
  by (cases a) (simp_all add: replay_def Let_def bound_method_def store_final_def call_history_def)

end
